theory Spec2Isabelle
  imports Main
begin

section \<open>The process state\<close>

text \<open>
  \<^verbatim>\<open>convert_icon.py\<close> is a script: its module body runs once, top to bottom. The state it
  runs in is the module global \<open>sizes\<close> and the text written so far to standard output.
  The remaining fields are what a Python process could read (arguments, environment,
  standard input, the clock, the random source); the script reads none of them, and they
  are here so that this can be stated.
\<close>

record process =
  argv :: "string list"
  environ :: "string \<rightharpoonup> string"
  stdin :: string
  clock :: nat
  entropy :: "nat list"
  sizes :: "(int \<times> string) list"
  stdout :: string

section \<open>Python's \<open>str\<close> on integers\<close>

text \<open>
  The f-string \<^verbatim>\<open>f"{size}"\<close> formats an \<open>int\<close> with an empty format specification, which
  is \<^verbatim>\<open>str(size)\<close>: the decimal digits, most significant first, with a leading minus sign
  for a negative number.
\<close>

definition digit_char :: "nat \<Rightarrow> char" where
  "digit_char d = ''0123456789'' ! d"

function str_nat :: "nat \<Rightarrow> string" where
  "str_nat n = (if n < 10 then [digit_char n] else str_nat (n div 10) @ [digit_char (n mod 10)])"
  by pat_completeness auto
termination
  by (relation "measure (\<lambda>n. n)") auto

declare str_nat.simps [simp del]

definition str_int :: "int \<Rightarrow> string" where
  "str_int i = (if i < 0 then CHR ''-'' # str_nat (nat (- i)) else str_nat (nat i))"

section \<open>The statements of the script\<close>

text \<open>
  \<^verbatim>\<open>print(s)\<close> writes \<open>s\<close> and a newline to standard output; \<^verbatim>\<open>print()\<close> writes the newline
  alone, which is \<open>print []\<close> here.
\<close>

definition newline :: char where
  "newline = CHR 0x0A"

definition print :: "string \<Rightarrow> process \<Rightarrow> process" where
  "print s p = p\<lparr>stdout := stdout p @ s @ [newline]\<rparr>"

text \<open>Lines 8 to 19: the assignment of the literal list to the global \<open>sizes\<close>.\<close>

definition assign_sizes :: "process \<Rightarrow> process" where
  "assign_sizes p = p\<lparr>sizes :=
     [(16, ''icon_16x16.png''),
      (32, ''icon_16x16@2x.png''),
      (32, ''icon_32x32.png''),
      (64, ''icon_32x32@2x.png''),
      (128, ''icon_128x128.png''),
      (256, ''icon_128x128@2x.png''),
      (256, ''icon_256x256.png''),
      (512, ''icon_256x256@2x.png''),
      (512, ''icon_512x512.png''),
      (1024, ''icon_512x512@2x.png'')]\<rparr>"

text \<open>The f-string of line 29, \<^verbatim>\<open>f"- {filename}: {size}x{size} pixels"\<close>.\<close>

definition size_line :: "int \<Rightarrow> string \<Rightarrow> string" where
  "size_line size' filename =
     ''- '' @ filename @ '': '' @ str_int size' @ ''x'' @ str_int size' @ '' pixels''"

text \<open>
  Lines 28 and 29: \<^verbatim>\<open>for size, filename in sizes: print(...)\<close>. The loop walks the list it
  is given from the first entry to the last; its body does not touch the list.
\<close>

fun for_sizes :: "(int \<times> string) list \<Rightarrow> process \<Rightarrow> process" where
  "for_sizes [] p = p"
| "for_sizes ((size', filename) # rest) p = for_sizes rest (print (size_line size' filename) p)"

text \<open>The module body, statement by statement (the two imports bind names that are never used).\<close>

definition script :: "process \<Rightarrow> process" where
  "script p0 =
    (let p1 = assign_sizes p0;
         p2 = print ''Note: This script requires librsvg (rsvg-convert) to be installed.'' p1;
         p3 = print ''You can install it with: brew install librsvg'' p2;
         p4 = print [] p3;
         p5 = print ''Alternatively, you can use an online converter or image editing software'' p4;
         p6 = print ''to create PNG files at these sizes:'' p5;
         p7 = print [] p6;
         p8 = for_sizes (sizes p7) p7;
         p9 = print [] p8;
         p10 = print ''Place the PNG files in assets/helix-gpui.iconset/'' p9
     in print ''Then run: iconutil -c icns assets/helix-gpui.iconset -o assets/helix-gpui.icns'' p10)"

section \<open>The script under Python's run-time checks\<close>

text \<open>
  The definitions above give the table the type of a list of pairs, so a statement that
  goes wrong cannot be written there. Python checks at run time instead, and a script ends
  with exit status 1 when one of its statements raises. The same module body is given here
  over Python's values, with every check of its statements as a branch:
  \<^item> reading the name \<^verbatim>\<open>sizes\<close> raises \<^verbatim>\<open>NameError\<close> when the name is not bound;
  \<^item> \<^verbatim>\<open>for ... in sizes\<close> raises \<^verbatim>\<open>TypeError\<close> when the value is not iterable (an \<open>int\<close>);
    a string is iterated character by character;
  \<^item> the targets \<^verbatim>\<open>size, filename\<close> raise \<^verbatim>\<open>TypeError\<close> on an item that is not iterable and
    \<^verbatim>\<open>ValueError\<close> on an item that does not have exactly two elements;
  \<^item> the f-string formats an \<open>int\<close> as its decimal numeral and a string as itself.
  The values are those the statements of this script can meet: integers and strings, tuples
  of them, and lists of such items. The exception carries no message here.
\<close>

datatype atom = PyInt int | PyStr string

datatype item = Single atom | Tuple "atom list"

datatype pyval = Scalar atom | Items "item list"

datatype exn = NameError string | TypeError | ValueError

type_synonym globals = "string \<rightharpoonup> pyval"

text \<open>Lines 8 to 19 again, as the Python value the list display builds.\<close>

definition sizes_literal :: "item list" where
  "sizes_literal =
     [Tuple [PyInt 16, PyStr ''icon_16x16.png''],
      Tuple [PyInt 32, PyStr ''icon_16x16@2x.png''],
      Tuple [PyInt 32, PyStr ''icon_32x32.png''],
      Tuple [PyInt 64, PyStr ''icon_32x32@2x.png''],
      Tuple [PyInt 128, PyStr ''icon_128x128.png''],
      Tuple [PyInt 256, PyStr ''icon_128x128@2x.png''],
      Tuple [PyInt 256, PyStr ''icon_256x256.png''],
      Tuple [PyInt 512, PyStr ''icon_256x256@2x.png''],
      Tuple [PyInt 512, PyStr ''icon_512x512.png''],
      Tuple [PyInt 1024, PyStr ''icon_512x512@2x.png'']]"

text \<open>What \<^verbatim>\<open>for\<close> iterates over.\<close>

fun iterate :: "pyval \<Rightarrow> exn + item list" where
  "iterate (Items es) = Inr es"
| "iterate (Scalar (PyStr s)) = Inr (map (\<lambda>c. Single (PyStr [c])) s)"
| "iterate (Scalar (PyInt i)) = Inl TypeError"

text \<open>Unpacking one item into the two targets \<^verbatim>\<open>size, filename\<close>.\<close>

fun unpack2 :: "item \<Rightarrow> exn + atom \<times> atom" where
  "unpack2 (Tuple as) = (case as of [a, b] \<Rightarrow> Inr (a, b) | _ \<Rightarrow> Inl ValueError)"
| "unpack2 (Single (PyInt i)) = Inl TypeError"
| "unpack2 (Single (PyStr s)) =
     (case s of [c, d] \<Rightarrow> Inr (PyStr [c], PyStr [d]) | _ \<Rightarrow> Inl ValueError)"

fun format_atom :: "atom \<Rightarrow> string" where
  "format_atom (PyInt i) = str_int i"
| "format_atom (PyStr s) = s"

text \<open>The f-string of line 29 on the values of \<^verbatim>\<open>filename\<close> and \<^verbatim>\<open>size\<close>.\<close>

definition fstring :: "atom \<Rightarrow> atom \<Rightarrow> string" where
  "fstring filename size' =
     ''- '' @ format_atom filename @ '': '' @ format_atom size' @ ''x'' @ format_atom size'
       @ '' pixels''"

text \<open>
  The loop of lines 28 and 29 over the items: each item is unpacked into the globals
  \<^verbatim>\<open>size\<close> and \<^verbatim>\<open>filename\<close>, then the body prints. An exception ends the loop, with what
  was printed before it still written.
\<close>

fun for_items :: "item list \<Rightarrow> globals \<times> process \<Rightarrow> exn \<times> process + globals \<times> process" where
  "for_items [] (g, p) = Inr (g, p)"
| "for_items (e # es) (g, p) =
     (case unpack2 e of
        Inl x \<Rightarrow> Inl (x, p)
      | Inr (a, b) \<Rightarrow>
          for_items es (g(''size'' \<mapsto> Scalar a, ''filename'' \<mapsto> Scalar b), print (fstring b a) p))"

definition for_statement :: "globals \<times> process \<Rightarrow> exn \<times> process + globals \<times> process" where
  "for_statement gp =
     (case fst gp ''sizes'' of
        None \<Rightarrow> Inl (NameError ''sizes'', snd gp)
      | Some v \<Rightarrow>
          (case iterate v of
             Inl x \<Rightarrow> Inl (x, snd gp)
           | Inr es \<Rightarrow> for_items es gp))"

text \<open>
  The module body, statement by statement. The globals hold the names the statements of
  the script bind and read; the two imports bind names that no statement reads and are left
  out. The statements after the loop run only when the loop has not raised.
\<close>

definition module_body :: "process \<Rightarrow> exn \<times> process + globals \<times> process" where
  "module_body p0 =
    (let g1 = Map.empty(''sizes'' \<mapsto> Items sizes_literal);
         p2 = print ''Note: This script requires librsvg (rsvg-convert) to be installed.'' p0;
         p3 = print ''You can install it with: brew install librsvg'' p2;
         p4 = print [] p3;
         p5 = print ''Alternatively, you can use an online converter or image editing software'' p4;
         p6 = print ''to create PNG files at these sizes:'' p5;
         p7 = print [] p6
     in case for_statement (g1, p7) of
          Inl raised \<Rightarrow> Inl raised
        | Inr (g8, p8) \<Rightarrow>
            (let p9 = print [] p8;
                 p10 = print ''Place the PNG files in assets/helix-gpui.iconset/'' p9
             in Inr (g8, print
               ''Then run: iconutil -c icns assets/helix-gpui.iconset -o assets/helix-gpui.icns''
               p10)))"

text \<open>
  The interpreter ends a script whose module body runs to its end with exit status 0, and
  one that stops on an uncaught exception with exit status 1.
\<close>

datatype outcome = Finished process | Uncaught exn process

definition run :: "process \<Rightarrow> outcome" where
  "run p = (case module_body p of Inl (x, q) \<Rightarrow> Uncaught x q | Inr (g, q) \<Rightarrow> Finished q)"

definition exit_status :: "outcome \<Rightarrow> int" where
  "exit_status r = (case r of Finished q \<Rightarrow> 0 | Uncaught x q \<Rightarrow> 1)"

text \<open>The item of the list that an entry of the typed table stands for.\<close>

definition item_of :: "int \<times> string \<Rightarrow> item" where
  "item_of e = Tuple [PyInt (fst e), PyStr (snd e)]"

text \<open>A process as it starts when the script is invoked with no arguments.\<close>

definition fresh :: process where
  "fresh = \<lparr>argv = [''convert_icon.py''], environ = Map.empty, stdin = [], clock = 0,
     entropy = [], sizes = [], stdout = []\<rparr>"

section \<open>Reading the output and the table\<close>

text \<open>
  The lines of a text: each newline ends a line, and a last line without a newline
  counts as a line. This is how the output is read back when a property speaks of the
  lines the script prints.
\<close>

fun lines_of :: "string \<Rightarrow> string list" where
  "lines_of [] = []"
| "lines_of (c # cs) =
     (if c = newline then [] # lines_of cs
      else (case lines_of cs of [] \<Rightarrow> [[c]] | l # ls \<Rightarrow> (c # l) # ls))"

text \<open>
  Reading a decimal numeral back, the inverse of \<open>str_int\<close> (Python's \<^verbatim>\<open>int(str(i)) == i\<close>).
\<close>

definition digit_val :: "char \<Rightarrow> nat" where
  "digit_val c = of_char c - 48"

definition nat_of_digits :: "string \<Rightarrow> nat" where
  "nat_of_digits ds = foldl (\<lambda>a c. 10 * a + digit_val c) 0 ds"

definition int_of_str :: "string \<Rightarrow> int" where
  "int_of_str s = (case s of [] \<Rightarrow> 0
      | c # cs \<Rightarrow> if c = CHR ''-'' then - int (nat_of_digits cs) else int (nat_of_digits s))"

text \<open>
  The naming convention of a macOS iconset, as the specification words it: the file of
  logical size \<open>l\<close> is \<^verbatim>\<open>icon_<l>x<l>.png\<close> at scale 1x and \<^verbatim>\<open>icon_<l>x<l>@2x.png\<close> at scale
  2x, and the 2x rendition has twice the pixels on each side.
\<close>

definition iconset_name :: "int \<Rightarrow> bool \<Rightarrow> string" where
  "iconset_name l retina =
     ''icon_'' @ str_int l @ ''x'' @ str_int l @ (if retina then ''@2x'' else []) @ ''.png''"

definition iconset_entries :: "int \<Rightarrow> (int \<times> string) list" where
  "iconset_entries l = [(l, iconset_name l False), (2 * l, iconset_name l True)]"

section \<open>Decimal numerals\<close>

lemma below_ten: "d < 10 \<Longrightarrow> d \<in> {0, 1, 2, 3, 4, 5, 6, 7, 8, 9::nat}"
  by simp arith

lemma digit_val_digit_char: "d < 10 \<Longrightarrow> digit_val (digit_char d) = d"
  using below_ten [of d] by (auto simp: digit_val_def digit_char_def)

lemma digit_char_in: "d < 10 \<Longrightarrow> digit_char d \<in> set ''0123456789''"
  using below_ten [of d] by (auto simp: digit_char_def)

lemma str_nat_chars: "set (str_nat n) \<subseteq> set ''0123456789''"
proof (induction n rule: str_nat.induct)
  case (1 n)
  show ?case
  proof (cases "n < 10")
    case True
    then show ?thesis using digit_char_in [of n] by (subst str_nat.simps) simp
  next
    case False
    have "n mod 10 < 10" by simp
    then have "digit_char (n mod 10) \<in> set ''0123456789''" by (rule digit_char_in)
    with False "1.IH" show ?thesis by (subst str_nat.simps) simp
  qed
qed

lemma str_nat_not_Nil: "str_nat n \<noteq> []"
  by (subst str_nat.simps) simp

lemma nat_of_digits_snoc: "nat_of_digits (ds @ [c]) = 10 * nat_of_digits ds + digit_val c"
  by (simp add: nat_of_digits_def)

lemma nat_of_digits_str_nat: "nat_of_digits (str_nat n) = n"
proof (induction n rule: str_nat.induct)
  case (1 n)
  show ?case
  proof (cases "n < 10")
    case True
    then show ?thesis
      by (subst str_nat.simps) (simp add: nat_of_digits_def digit_val_digit_char)
  next
    case False
    with "1.IH" have "nat_of_digits (str_nat (n div 10)) = n div 10" by simp
    with False show ?thesis
      by (subst str_nat.simps) (simp add: nat_of_digits_snoc digit_val_digit_char)
  qed
qed

lemma str_nat_no_minus: "hd (str_nat n) \<noteq> CHR ''-''"
proof -
  have "hd (str_nat n) \<in> set (str_nat n)" using str_nat_not_Nil by simp
  with str_nat_chars [of n] show ?thesis by auto
qed

lemma int_of_str_str_int: "int_of_str (str_int i) = i"
proof (cases "i < 0")
  case True
  then show ?thesis by (simp add: int_of_str_def str_int_def nat_of_digits_str_nat)
next
  case False
  obtain c cs where eq: "str_nat (nat i) = c # cs"
    using str_nat_not_Nil [of "nat i"] by (cases "str_nat (nat i)") auto
  with str_nat_no_minus [of "nat i"] have "c \<noteq> CHR ''-''" by simp
  moreover have "nat_of_digits (c # cs) = nat i"
    using nat_of_digits_str_nat [of "nat i"] eq by simp
  ultimately show ?thesis using False eq by (simp add: int_of_str_def str_int_def)
qed

lemma str_int_inj:
  assumes "str_int i = str_int j"
  shows "i = j"
proof -
  from assms have "int_of_str (str_int i) = int_of_str (str_int j)" by (rule arg_cong)
  then show ?thesis by (simp only: int_of_str_str_int)
qed

lemma str_nat_no_x: "CHR ''x'' \<notin> set (str_nat n)"
  using str_nat_chars [of n] by auto

lemma str_int_no_x: "CHR ''x'' \<notin> set (str_int i)"
  by (simp add: str_int_def str_nat_no_x)

lemma split_at_first:
  "x \<notin> set xs \<Longrightarrow> x \<notin> set xs' \<Longrightarrow> xs @ x # ys = xs' @ x # ys' \<Longrightarrow> xs = xs' \<and> ys = ys'"
proof (induction xs arbitrary: xs')
  case Nil
  then show ?case by (cases xs') auto
next
  case (Cons a xs)
  then show ?case by (cases xs') auto
qed

lemma iconset_name_inj:
  assumes "iconset_name l r = iconset_name l' r'"
  shows "l = l' \<and> r = r'"
proof -
  define suf where "suf = (\<lambda>b. (if b then ''@2x'' else []) @ ''.png'')"
  have name: "iconset_name k b = ''icon_'' @ str_int k @ CHR ''x'' # (str_int k @ suf b)" for k b
    by (simp add: iconset_name_def suf_def)
  from assms have "str_int l @ CHR ''x'' # (str_int l @ suf r)
      = str_int l' @ CHR ''x'' # (str_int l' @ suf r')"
    unfolding name by simp
  then have "str_int l = str_int l' \<and> str_int l @ suf r = str_int l' @ suf r'"
    by (rule split_at_first [OF str_int_no_x str_int_no_x])
  then have eq: "str_int l = str_int l'" and "str_int l @ suf r = str_int l' @ suf r'"
    by blast+
  then have "suf r = suf r'" by simp
  then have "r = r'" by (cases r; cases r') (simp_all add: suf_def)
  moreover from eq have "l = l'" by (rule str_int_inj)
  ultimately show ?thesis by simp
qed

section \<open>What the statements do to the state\<close>

lemma for_sizes_eq:
  "for_sizes t p = p\<lparr>stdout := stdout p @ concat (map (\<lambda>(d, f). size_line d f @ [newline]) t)\<rparr>"
proof (induction t arbitrary: p)
  case Nil
  show ?case by simp
next
  case (Cons e t)
  obtain d f where e: "e = (d, f)" by (cases e)
  show ?case unfolding e by (simp add: Cons.IH print_def)
qed

lemma str_int_16: "str_int 16 = ''16''" by code_simp
lemma str_int_32: "str_int 32 = ''32''" by code_simp
lemma str_int_64: "str_int 64 = ''64''" by code_simp
lemma str_int_128: "str_int 128 = ''128''" by code_simp
lemma str_int_256: "str_int 256 = ''256''" by code_simp
lemma str_int_512: "str_int 512 = ''512''" by code_simp
lemma str_int_1024: "str_int 1024 = ''1024''" by code_simp

lemmas str_int_table = str_int_16 str_int_32 str_int_64 str_int_128 str_int_256 str_int_512
  str_int_1024

lemma sizes_script: "sizes (script p) = sizes (assign_sizes p)"
  by (simp add: script_def Let_def print_def for_sizes_eq)

lemma stdout_script:
  "stdout (script p) = stdout p @ concat (map (\<lambda>l. l @ [newline])
    [''Note: This script requires librsvg (rsvg-convert) to be installed.'',
     ''You can install it with: brew install librsvg'',
     [],
     ''Alternatively, you can use an online converter or image editing software'',
     ''to create PNG files at these sizes:'',
     [],
     ''- icon_16x16.png: 16x16 pixels'',
     ''- icon_16x16@2x.png: 32x32 pixels'',
     ''- icon_32x32.png: 32x32 pixels'',
     ''- icon_32x32@2x.png: 64x64 pixels'',
     ''- icon_128x128.png: 128x128 pixels'',
     ''- icon_128x128@2x.png: 256x256 pixels'',
     ''- icon_256x256.png: 256x256 pixels'',
     ''- icon_256x256@2x.png: 512x512 pixels'',
     ''- icon_512x512.png: 512x512 pixels'',
     ''- icon_512x512@2x.png: 1024x1024 pixels'',
     [],
     ''Place the PNG files in assets/helix-gpui.iconset/'',
     ''Then run: iconutil -c icns assets/helix-gpui.iconset -o assets/helix-gpui.icns''])"
  by (simp add: script_def Let_def print_def for_sizes_eq assign_sizes_def size_line_def
      str_int_table)

lemma lines_of_line:
  "newline \<notin> set l \<Longrightarrow> lines_of (l @ newline # rest) = l # lines_of rest"
  by (induction l) auto

lemma lines_of_unlines:
  "\<forall>l \<in> set ls. newline \<notin> set l \<Longrightarrow> lines_of (concat (map (\<lambda>l. l @ [newline]) ls)) = ls"
  by (induction ls) (simp_all add: lines_of_line)

lemma lines_of_script:
  "lines_of (stdout (script (p\<lparr>stdout := []\<rparr>))) =
    [''Note: This script requires librsvg (rsvg-convert) to be installed.'',
     ''You can install it with: brew install librsvg'',
     [],
     ''Alternatively, you can use an online converter or image editing software'',
     ''to create PNG files at these sizes:'',
     [],
     ''- icon_16x16.png: 16x16 pixels'',
     ''- icon_16x16@2x.png: 32x32 pixels'',
     ''- icon_32x32.png: 32x32 pixels'',
     ''- icon_32x32@2x.png: 64x64 pixels'',
     ''- icon_128x128.png: 128x128 pixels'',
     ''- icon_128x128@2x.png: 256x256 pixels'',
     ''- icon_256x256.png: 256x256 pixels'',
     ''- icon_256x256@2x.png: 512x512 pixels'',
     ''- icon_512x512.png: 512x512 pixels'',
     ''- icon_512x512@2x.png: 1024x1024 pixels'',
     [],
     ''Place the PNG files in assets/helix-gpui.iconset/'',
     ''Then run: iconutil -c icns assets/helix-gpui.iconset -o assets/helix-gpui.icns'']"
  (is "_ = ?ls")
proof -
  have "\<forall>l \<in> set ?ls. newline \<notin> set l" by (simp add: newline_def)
  then have split: "lines_of (concat (map (\<lambda>l. l @ [newline]) ?ls)) = ?ls"
    by (rule lines_of_unlines)
  have "stdout (p\<lparr>stdout := []\<rparr>) = []" by simp
  then show ?thesis by (simp only: stdout_script append_Nil split)
qed

lemma sizes_assigned:
  "sizes (assign_sizes p) = concat (map iconset_entries [16, 32, 128, 256, 512])"
  by (simp add: assign_sizes_def iconset_entries_def iconset_name_def str_int_table)

lemma sizes_print: "sizes (print s q) = sizes q"
  by (simp add: print_def)

lemma sizes_for_sizes: "sizes (for_sizes t q) = sizes q"
  by (simp add: for_sizes_eq)

lemma stdout_reset: "stdout (p\<lparr>stdout := []\<rparr>) = []"
  by simp

lemma sizes_table:
  "sizes (script p) =
     [(16, ''icon_16x16.png''), (32, ''icon_16x16@2x.png''), (32, ''icon_32x32.png''),
      (64, ''icon_32x32@2x.png''), (128, ''icon_128x128.png''), (256, ''icon_128x128@2x.png''),
      (256, ''icon_256x256.png''), (512, ''icon_256x256@2x.png''), (512, ''icon_512x512.png''),
      (1024, ''icon_512x512@2x.png'')]"
  by (simp add: sizes_script assign_sizes_def)

lemma lines_of_for_sizes:
  "lines_of (stdout (for_sizes (sizes (script p)) (q\<lparr>stdout := []\<rparr>))) =
     [''- icon_16x16.png: 16x16 pixels'',
      ''- icon_16x16@2x.png: 32x32 pixels'',
      ''- icon_32x32.png: 32x32 pixels'',
      ''- icon_32x32@2x.png: 64x64 pixels'',
      ''- icon_128x128.png: 128x128 pixels'',
      ''- icon_128x128@2x.png: 256x256 pixels'',
      ''- icon_256x256.png: 256x256 pixels'',
      ''- icon_256x256@2x.png: 512x512 pixels'',
      ''- icon_512x512.png: 512x512 pixels'',
      ''- icon_512x512@2x.png: 1024x1024 pixels'']"
  (is "_ = ?ls")
proof -
  have "\<forall>l \<in> set ?ls. newline \<notin> set l" by (simp add: newline_def)
  then have split: "lines_of (concat (map (\<lambda>l. l @ [newline]) ?ls)) = ?ls"
    by (rule lines_of_unlines)
  have "stdout (for_sizes (sizes (script p)) (q\<lparr>stdout := []\<rparr>))
      = concat (map (\<lambda>l. l @ [newline]) ?ls)"
    by (simp add: sizes_table for_sizes_eq size_line_def str_int_table)
  then show ?thesis by (simp only: split)
qed

section \<open>The shape of the table\<close>

lemma sizes_iconset: "sizes (script p) = concat (map iconset_entries [16, 32, 128, 256, 512])"
  by (simp only: sizes_script sizes_assigned)

lemma entry_shape:
  assumes "(d, f) \<in> set (sizes (script p))"
  shows "\<exists>l \<in> {16, 32, 128, 256, 512}.
    (d = l \<and> f = iconset_name l False) \<or> (d = 2 * l \<and> f = iconset_name l True)"
proof -
  from assms have "(d, f) \<in> (\<Union>l \<in> {16, 32, 128, 256, 512}. set (iconset_entries l))"
    unfolding sizes_iconset by simp
  then obtain l where "l \<in> {16, 32, 128, 256, 512}" and "(d, f) \<in> set (iconset_entries l)"
    by (rule UN_E)
  then show ?thesis by (intro bexI [of _ l]) (simp_all add: iconset_entries_def)
qed


section \<open>The run-time checks of the script\<close>

lemma for_items_sizes_literal:
  "\<exists>g'. for_items sizes_literal (g, p) = Inr (g', for_sizes (sizes (assign_sizes p0)) p)
     \<and> g' ''sizes'' = g ''sizes''"
  by (simp add: sizes_literal_def assign_sizes_def fstring_def size_line_def)

lemma sizes_literal_items: "sizes_literal = map item_of (sizes (script p))"
  by (simp add: sizes_table sizes_literal_def item_of_def)

lemma module_body_finishes:
  "\<exists>g q. module_body p = Inr (g, q)
     \<and> stdout q = stdout (script p)
     \<and> g ''sizes'' = Some (Items (map item_of (sizes (script p))))
     \<and> argv q = argv p \<and> environ q = environ p \<and> stdin q = stdin p"
proof -
  let ?p7 = "print [] (print ''to create PNG files at these sizes:''
     (print ''Alternatively, you can use an online converter or image editing software''
     (print [] (print ''You can install it with: brew install librsvg''
     (print ''Note: This script requires librsvg (rsvg-convert) to be installed.'' p)))))"
  let ?g1 = "Map.empty(''sizes'' \<mapsto> Items sizes_literal)"
  obtain g' where loop: "for_items sizes_literal (?g1, ?p7)
      = Inr (g', for_sizes (sizes (assign_sizes p)) ?p7)"
    and keep: "g' ''sizes'' = ?g1 ''sizes''"
    using for_items_sizes_literal [of ?g1 ?p7 p] by blast
  have stmt: "for_statement (?g1, ?p7) = Inr (g', for_sizes (sizes (assign_sizes p)) ?p7)"
    by (simp add: for_statement_def loop)
  have body: "module_body p = Inr (g', print
      ''Then run: iconutil -c icns assets/helix-gpui.iconset -o assets/helix-gpui.icns''
      (print ''Place the PNG files in assets/helix-gpui.iconset/''
      (print [] (for_sizes (sizes (assign_sizes p)) ?p7))))"
    by (simp add: module_body_def Let_def stmt)
  show ?thesis
    unfolding body using keep
    by (simp add: sizes_literal_items [of p] script_def Let_def for_sizes_eq print_def
        assign_sizes_def)
qed

text \<open>
  The checks are live: a list with an item of one element, an item that is a number, a
  number in place of the list, or no binding of \<^verbatim>\<open>sizes\<close> at all each end the loop with
  an exception, and the exit status of such a run is 1.
\<close>

lemma for_items_raises:
  "for_items [Tuple [PyInt 16]] (g, p) = Inl (ValueError, p)"
  "for_items [Tuple [PyInt 16, PyStr ''a'', PyStr ''b'']] (g, p) = Inl (ValueError, p)"
  "for_items [Single (PyInt 16)] (g, p) = Inl (TypeError, p)"
  by simp_all

lemma for_statement_raises:
  "for_statement (Map.empty, p) = Inl (NameError ''sizes'', p)"
  "for_statement (Map.empty(''sizes'' \<mapsto> Scalar (PyInt 16)), p) = Inl (TypeError, p)"
  by (simp_all add: for_statement_def)

lemma exit_status_Uncaught: "exit_status (Uncaught x q) = 1"
  by (simp add: exit_status_def)

section \<open>The claims\<close>

text \<open>
  C1. The list of sizes and file names the script prints is exactly ten lines, one for each
  entry of the table and in the order of the table: the loop alone prints these ten lines,
  they are lines 7 to 16 of the whole output, and the table pairs the pixel dimensions
  16, 32, 32, 64, 128, 256, 256, 512, 512, 1024 with the ten file names in this order.
\<close>

theorem size_list_emitted:
  "lines_of (stdout (for_sizes (sizes (script p)) (q\<lparr>stdout := []\<rparr>))) =
     [''- icon_16x16.png: 16x16 pixels'',
      ''- icon_16x16@2x.png: 32x32 pixels'',
      ''- icon_32x32.png: 32x32 pixels'',
      ''- icon_32x32@2x.png: 64x64 pixels'',
      ''- icon_128x128.png: 128x128 pixels'',
      ''- icon_128x128@2x.png: 256x256 pixels'',
      ''- icon_256x256.png: 256x256 pixels'',
      ''- icon_256x256@2x.png: 512x512 pixels'',
      ''- icon_512x512.png: 512x512 pixels'',
      ''- icon_512x512@2x.png: 1024x1024 pixels'']
   \<and> length (lines_of (stdout (for_sizes (sizes (script p)) (q\<lparr>stdout := []\<rparr>)))) = 10
   \<and> take 10 (drop 6 (lines_of (stdout (script (p\<lparr>stdout := []\<rparr>)))))
       = lines_of (stdout (for_sizes (sizes (script p)) (q\<lparr>stdout := []\<rparr>)))
   \<and> map fst (sizes (script p)) = [16, 32, 32, 64, 128, 256, 256, 512, 512, 1024]
   \<and> map snd (sizes (script p)) =
       [''icon_16x16.png'', ''icon_16x16@2x.png'', ''icon_32x32.png'', ''icon_32x32@2x.png'',
        ''icon_128x128.png'', ''icon_128x128@2x.png'', ''icon_256x256.png'',
        ''icon_256x256@2x.png'', ''icon_512x512.png'', ''icon_512x512@2x.png'']"
proof (intro conjI)
  show "take 10 (drop 6 (lines_of (stdout (script (p\<lparr>stdout := []\<rparr>)))))
       = lines_of (stdout (for_sizes (sizes (script p)) (q\<lparr>stdout := []\<rparr>)))"
    by (simp only: lines_of_script lines_of_for_sizes) simp
  show "length (lines_of (stdout (for_sizes (sizes (script p)) (q\<lparr>stdout := []\<rparr>)))) = 10"
    by (simp only: lines_of_for_sizes) simp
  show "map fst (sizes (script p)) = [16, 32, 32, 64, 128, 256, 256, 512, 512, 1024]"
    by (simp add: sizes_table)
  show "map snd (sizes (script p)) =
       [''icon_16x16.png'', ''icon_16x16@2x.png'', ''icon_32x32.png'', ''icon_32x32@2x.png'',
        ''icon_128x128.png'', ''icon_128x128@2x.png'', ''icon_256x256.png'',
        ''icon_256x256@2x.png'', ''icon_512x512.png'', ''icon_512x512@2x.png'']"
    by (simp add: sizes_table)
qed (rule lines_of_for_sizes)


text \<open>
  C3. The whole output is one fixed sequence: the notice naming rsvg-convert and the
  command that installs it, a blank line, the notice of the manual alternative, a blank line,
  the ten lines of the table, a blank line, the instruction naming the destination directory
  and the instruction naming the iconutil command.
\<close>

theorem output_sequence:
  "lines_of (stdout (script (p\<lparr>stdout := []\<rparr>))) =
    [''Note: This script requires librsvg (rsvg-convert) to be installed.'',
     ''You can install it with: brew install librsvg'',
     [],
     ''Alternatively, you can use an online converter or image editing software'',
     ''to create PNG files at these sizes:'',
     [],
     ''- icon_16x16.png: 16x16 pixels'',
     ''- icon_16x16@2x.png: 32x32 pixels'',
     ''- icon_32x32.png: 32x32 pixels'',
     ''- icon_32x32@2x.png: 64x64 pixels'',
     ''- icon_128x128.png: 128x128 pixels'',
     ''- icon_128x128@2x.png: 256x256 pixels'',
     ''- icon_256x256.png: 256x256 pixels'',
     ''- icon_256x256@2x.png: 512x512 pixels'',
     ''- icon_512x512.png: 512x512 pixels'',
     ''- icon_512x512@2x.png: 1024x1024 pixels'',
     [],
     ''Place the PNG files in assets/helix-gpui.iconset/'',
     ''Then run: iconutil -c icns assets/helix-gpui.iconset -o assets/helix-gpui.icns'']"
  by (rule lines_of_script)

text \<open>
  C5. The script is deterministic: two runs that start with nothing written yet write the
  same bytes to standard output, whatever their arguments, environment, standard input,
  clock or random source are.
\<close>

theorem output_deterministic:
  "stdout (script (p\<lparr>stdout := []\<rparr>)) = stdout (script (q\<lparr>stdout := []\<rparr>))"
  by (simp only: stdout_script stdout_reset)

text \<open>
  C6. The script takes no flags or arguments, has no failure path and always ends with exit
  status 0: under Python's run-time checks no statement raises, whatever the state the run
  starts in, so every run finishes its module body; it prints what the typed script prints,
  binds \<^verbatim>\<open>sizes\<close> to the typed table, and leaves arguments, environment and standard input
  as they were.
\<close>

theorem exit_status_zero:
  "exit_status (run p) = 0
   \<and> (\<exists>g q. module_body p = Inr (g, q) \<and> run p = Finished q
        \<and> stdout q = stdout (script p)
        \<and> g ''sizes'' = Some (Items (map item_of (sizes (script p))))
        \<and> argv q = argv p \<and> environ q = environ p \<and> stdin q = stdin p)
   \<and> exit_status (run (p\<lparr>argv := a, environ := e, stdin := i\<rparr>)) = exit_status (run p)"
proof -
  obtain g q where body: "module_body p = Inr (g, q)" and out: "stdout q = stdout (script p)"
    and tbl: "g ''sizes'' = Some (Items (map item_of (sizes (script p))))"
    and same: "argv q = argv p" "environ q = environ p" "stdin q = stdin p"
    using module_body_finishes [of p] by blast
  have zero: "exit_status (run p') = 0" for p'
    using module_body_finishes [of p'] by (auto simp: run_def exit_status_def)
  from body have "run p = Finished q" by (simp add: run_def)
  with body out tbl same zero [of p] zero [of "p\<lparr>argv := a, environ := e, stdin := i\<rparr>"]
  show ?thesis by simp
qed

text \<open>
  C7. The output of a run contains the line \<^verbatim>\<open>- icon_16x16@2x.png: 32x32 pixels\<close>, and its
  last line tells the user to run iconutil on the iconset directory.
\<close>

theorem end_to_end:
  "''- icon_16x16@2x.png: 32x32 pixels'' \<in> set (lines_of (stdout (script (p\<lparr>stdout := []\<rparr>))))
   \<and> last (lines_of (stdout (script (p\<lparr>stdout := []\<rparr>)))) =
       ''Then run: iconutil -c icns assets/helix-gpui.iconset -o assets/helix-gpui.icns''"
  by (simp only: lines_of_script) simp

text \<open>
  C10. The last two of the nineteen lines name the destination directory
  \<^verbatim>\<open>assets/helix-gpui.iconset/\<close> and the command
  \<^verbatim>\<open>iconutil -c icns assets/helix-gpui.iconset -o assets/helix-gpui.icns\<close>, the same on
  every run.
\<close>

theorem closing_literals:
  "drop 17 (lines_of (stdout (script (p\<lparr>stdout := []\<rparr>)))) =
     [''Place the PNG files in '' @ ''assets/helix-gpui.iconset/'',
      ''Then run: '' @ ''iconutil -c icns assets/helix-gpui.iconset -o assets/helix-gpui.icns'']
   \<and> length (lines_of (stdout (script (p\<lparr>stdout := []\<rparr>)))) = 19"
  by (simp only: lines_of_script) simp

text \<open>
  C4. The table has exactly ten entries: for the five logical sizes 16, 32, 128, 256, 512,
  in ascending order, the 1x entry and right after it the 2x entry. It is a constant: the
  assignment gives the same list in every run, no statement after it changes the list,
  and the table at the end of the script is the one that was assigned.
\<close>

theorem size_table_invariant:
  "sizes (script p) = concat (map iconset_entries [16, 32, 128, 256, 512])
   \<and> length (sizes (script p)) = 10
   \<and> sorted_wrt (<) [16, 32, 128, 256, 512 :: int]
   \<and> sizes (script p) = sizes (assign_sizes p)
   \<and> sizes (assign_sizes p) = sizes (assign_sizes q)
   \<and> sizes (print s q) = sizes q
   \<and> sizes (for_sizes t q) = sizes q"
proof (intro conjI)
  show "sizes (script p) = concat (map iconset_entries [16, 32, 128, 256, 512])"
    by (rule sizes_iconset)
  show "length (sizes (script p)) = 10" by (simp add: sizes_table)
  show "sorted_wrt (<) [16, 32, 128, 256, 512 :: int]" by simp
  show "sizes (script p) = sizes (assign_sizes p)" by (rule sizes_script)
  show "sizes (assign_sizes p) = sizes (assign_sizes q)" by (simp add: assign_sizes_def)
  show "sizes (print s q) = sizes q" by (rule sizes_print)
  show "sizes (for_sizes t q) = sizes q" by (rule sizes_for_sizes)
qed

text \<open>
  C8. Every file name of the table is \<^verbatim>\<open>icon_<l>x<l>.png\<close> or \<^verbatim>\<open>icon_<l>x<l>@2x.png\<close> for a
  logical size \<open>l\<close> among 16, 32, 128, 256, 512, with the same \<open>l\<close> on both sides of the \<open>x\<close>.
\<close>

theorem filenames_follow_pattern:
  "\<forall>f \<in> set (map snd (sizes (script p))).
     \<exists>l \<in> {16, 32, 128, 256, 512}. f = iconset_name l False \<or> f = iconset_name l True"
proof
  fix f assume "f \<in> set (map snd (sizes (script p)))"
  then obtain d where "(d, f) \<in> set (sizes (script p))" by auto
  then obtain l where "l \<in> {16, 32, 128, 256, 512}"
    and "(d = l \<and> f = iconset_name l False) \<or> (d = 2 * l \<and> f = iconset_name l True)"
    using entry_shape by blast
  then show "\<exists>l \<in> {16, 32, 128, 256, 512}. f = iconset_name l False \<or> f = iconset_name l True"
    by (intro bexI [of _ l]) blast
qed

theorem filenames_follow_pattern_witness:
  "''icon_128x128@2x.png'' \<in> set (map snd (sizes (script fresh)))
   \<and> (\<exists>l \<in> {16, 32, 128, 256, 512}.
        ''icon_128x128@2x.png'' = iconset_name l False \<or> ''icon_128x128@2x.png'' = iconset_name l True)"
proof -
  have mem: "''icon_128x128@2x.png'' \<in> set (map snd (sizes (script fresh)))"
    by (simp add: sizes_table)
  from filenames_follow_pattern [of fresh] mem
  have "\<exists>l \<in> {16, 32, 128, 256, 512}.
        ''icon_128x128@2x.png'' = iconset_name l False \<or> ''icon_128x128@2x.png'' = iconset_name l True"
    by (rule bspec)
  with mem show ?thesis by (rule conjI)
qed

text \<open>
  C9. The file name of an entry determines its pixel dimension: an entry named
  \<^verbatim>\<open>icon_<s>x<s>.png\<close> has dimension \<open>s\<close>, and an entry named \<^verbatim>\<open>icon_<s>x<s>@2x.png\<close> has
  dimension \<open>2 * s\<close>, for every integer \<open>s\<close>.
\<close>

theorem dimension_from_filename:
  "\<forall>(d, f) \<in> set (sizes (script p)).
     \<forall>s. (f = iconset_name s False \<longrightarrow> d = s) \<and> (f = iconset_name s True \<longrightarrow> d = 2 * s)"
proof (intro ballI, clarify)
  fix d f s
  assume "(d, f) \<in> set (sizes (script p))"
  then obtain l where
    shape: "(d = l \<and> f = iconset_name l False) \<or> (d = 2 * l \<and> f = iconset_name l True)"
    using entry_shape by blast
  show "(f = iconset_name s False \<longrightarrow> d = s) \<and> (f = iconset_name s True \<longrightarrow> d = 2 * s)"
  proof (intro conjI impI)
    assume "f = iconset_name s False"
    with shape iconset_name_inj [of l False s False] iconset_name_inj [of l True s False]
    show "d = s" by blast
  next
    assume "f = iconset_name s True"
    with shape iconset_name_inj [of l False s True] iconset_name_inj [of l True s True]
    show "d = 2 * s" by blast
  qed
qed

theorem dimension_from_filename_witness:
  "(16, ''icon_16x16.png'') \<in> set (sizes (script fresh))
   \<and> ''icon_16x16.png'' = iconset_name 16 False
   \<and> fst (16 :: int, ''icon_16x16.png'') = 16
   \<and> (1024, ''icon_512x512@2x.png'') \<in> set (sizes (script fresh))
   \<and> ''icon_512x512@2x.png'' = iconset_name 512 True
   \<and> fst (1024 :: int, ''icon_512x512@2x.png'') = 2 * 512"
proof -
  have a: "(16, ''icon_16x16.png'') \<in> set (sizes (script fresh))"
    and b: "(1024, ''icon_512x512@2x.png'') \<in> set (sizes (script fresh))"
    by (simp_all add: sizes_table)
  have na: "''icon_16x16.png'' = iconset_name 16 False"
    and nb: "''icon_512x512@2x.png'' = iconset_name 512 True"
    by (simp_all add: iconset_name_def str_int_table)
  from bspec [OF dimension_from_filename [of fresh] a]
  have "\<forall>s. (''icon_16x16.png'' = iconset_name s False \<longrightarrow> (16::int) = s)
      \<and> (''icon_16x16.png'' = iconset_name s True \<longrightarrow> (16::int) = 2 * s)"
    by (simp only: prod.case)
  then have "(''icon_16x16.png'' = iconset_name 16 False \<longrightarrow> (16::int) = 16)
      \<and> (''icon_16x16.png'' = iconset_name 16 True \<longrightarrow> (16::int) = 2 * 16)"
    by (rule spec)
  then have "''icon_16x16.png'' = iconset_name 16 False \<longrightarrow> (16::int) = 16"
    by (rule conjunct1)
  from this na have "(16::int) = 16" by (rule mp)
  then have ca: "fst (16 :: int, ''icon_16x16.png'') = 16" by (simp only: fst_conv)
  from bspec [OF dimension_from_filename [of fresh] b]
  have "\<forall>s. (''icon_512x512@2x.png'' = iconset_name s False \<longrightarrow> (1024::int) = s)
      \<and> (''icon_512x512@2x.png'' = iconset_name s True \<longrightarrow> (1024::int) = 2 * s)"
    by (simp only: prod.case)
  then have "(''icon_512x512@2x.png'' = iconset_name 512 False \<longrightarrow> (1024::int) = 512)
      \<and> (''icon_512x512@2x.png'' = iconset_name 512 True \<longrightarrow> (1024::int) = 2 * 512)"
    by (rule spec)
  then have "''icon_512x512@2x.png'' = iconset_name 512 True \<longrightarrow> (1024::int) = 2 * 512"
    by (rule conjunct2)
  from this nb have "(1024::int) = 2 * 512" by (rule mp)
  then have cb: "fst (1024 :: int, ''icon_512x512@2x.png'') = 2 * 512" by (simp only: fst_conv)
  from a na ca b nb cb show ?thesis by (intro conjI)
qed

end
